theory Spec2Isabelle
  imports Main
begin

section \<open>Errors (core.js, class SolanaToolkitError)\<close>

text \<open>
  A thrown JavaScript value is either a \<open>SolanaToolkitError\<close> (message, code, context), a
  plain \<open>Error\<close> (message only: what the RPC library and \<open>throw new Error(...)\<close> raise), or
  a \<open>TypeError\<close> raised by the runtime on a property read of \<open>undefined\<close>/\<open>null\<close>.
  The \<open>timestamp\<close> field of \<open>SolanaToolkitError\<close> is a wall-clock reading and is left out.
  Context values are the numbers and strings the source stores in the context object.
\<close>

datatype ctx_val = CNum int | CStr string | CList "string list"

datatype js_error =
    SolanaToolkitError string string "(string \<times> ctx_val) list"
  | Error string
  | TypeError string

fun message :: "js_error \<Rightarrow> string" where
  "message (SolanaToolkitError m c ctx) = m"
| "message (Error m) = m"
| "message (TypeError m) = m"

fun code :: "js_error \<Rightarrow> string option" where
  "code (SolanaToolkitError m c ctx) = Some c"
| "code (Error m) = None"
| "code (TypeError m) = None"

fun contextOf :: "js_error \<Rightarrow> (string \<times> ctx_val) list" where
  "contextOf (SolanaToolkitError m c ctx) = ctx"
| "contextOf (Error m) = []"
| "contextOf (TypeError m) = []"

fun instanceofSolanaToolkitError :: "js_error \<Rightarrow> bool" where
  "instanceofSolanaToolkitError (SolanaToolkitError m c ctx) = True"
| "instanceofSolanaToolkitError (Error m) = False"
| "instanceofSolanaToolkitError (TypeError m) = False"

text \<open>Decimal rendering of an integer, as a template literal \<open>${n}\<close> renders it.\<close>

definition digit :: "nat \<Rightarrow> char" where
  "digit d = char_of (48 + d)"

fun showNat :: "nat \<Rightarrow> string" where
  "showNat n = (if n < 10 then [digit n] else showNat (n div 10) @ [digit (n mod 10)])"

definition showInt :: "int \<Rightarrow> string" where
  "showInt i = (if i < 0 then CHR ''-'' # showNat (nat (- i)) else showNat (nat i))"

section \<open>ConnectionManager (core.js)\<close>

text \<open>
  A \<open>Connection\<close> object is identified by what its constructor was given.  The manager is
  the record of the fields of the class; \<open>intervals\<close> is the runtime's table of timers
  registered with \<open>setInterval\<close> (the period of each, in registration order; the source
  keeps no handle and never clears one), \<open>trace\<close> is a log of what \<open>executeWithRetry\<close> did,
  kept for the statements below, and \<open>world\<close> is everything outside the manager that an
  operation can read or write (the network, other objects).
\<close>

record conn =
  c_endpoint :: string
  c_commitment :: string

datatype event =
    Unhealthy int
  | Invoke int
  | Returned int
  | Caught int js_error
  | Sleep int int

record 'w cm =
  endpoint :: string
  commitment :: string
  connection :: "conn option"
  retryAttempts :: int
  retryDelay :: int
  healthCheckInterval :: int
  isHealthy :: bool
  lastHealthCheck :: int
  intervals :: "int list"
  trace :: "event list"
  world :: 'w

subsection \<open>Health check\<close>

text \<open>
  One run of the callback given to \<open>setInterval\<close> in \<open>startHealthCheck\<close>.  The outcome of
  \<open>await this.connection.getSlot()\<close> and the clock readings are the argument: either the
  call answered after \<open>responseTime\<close> milliseconds (and \<open>Date.now()\<close> then reads \<open>now\<close>), or
  it threw.
\<close>

datatype probe = Responded int int | ProbeThrew string

fun healthCheck :: "probe \<Rightarrow> 'w cm \<Rightarrow> 'w cm" where
  "healthCheck (Responded responseTime now) s =
     s\<lparr>isHealthy := responseTime < 5000, lastHealthCheck := now\<rparr>"
| "healthCheck (ProbeThrew m) s = s\<lparr>isHealthy := False\<rparr>"

definition startHealthCheck :: "'w cm \<Rightarrow> 'w cm" where
  "startHealthCheck s = s\<lparr>intervals := intervals s @ [healthCheckInterval s]\<rparr>"

text \<open>
  The \<open>i\<close>-th registered timer fires: its callback probes \<open>this.connection\<close> as it is at
  that moment (\<open>getSlot\<close> gives the outcome for a connection; on \<open>null\<close> the method call
  raises inside the \<open>try\<close>).  A timer that is not registered does nothing.
\<close>

definition fireInterval :: "(conn \<Rightarrow> probe) \<Rightarrow> nat \<Rightarrow> 'w cm \<Rightarrow> 'w cm" where
  "fireInterval getSlot i s =
     (if i < length (intervals s) then
        (case connection s of
           None \<Rightarrow> healthCheck (ProbeThrew ''Cannot read properties of null'') s
         | Some c \<Rightarrow> healthCheck (getSlot c) s)
      else s)"

subsection \<open>Construction and network switch\<close>

text \<open>
  \<open>newConnection\<close> stands for \<open>new Connection(endpoint, {commitment, ...})\<close> of the RPC
  library, which may throw (for instance on a malformed URL).
\<close>

definition initializeConnection ::
  "(string \<Rightarrow> string \<Rightarrow> js_error + conn) \<Rightarrow> 'w cm \<Rightarrow> (js_error + unit) \<times> 'w cm" where
  "initializeConnection newConnection s =
     (case newConnection (endpoint s) (commitment s) of
        Inr c \<Rightarrow> (Inr (), startHealthCheck (s\<lparr>connection := Some c\<rparr>))
      | Inl e \<Rightarrow>
          (Inl (SolanaToolkitError
                  (''Failed to initialize connection: '' @ message e)
                  ''CONNECTION_INIT_ERROR''
                  [(''endpoint'', CStr (endpoint s)), (''error'', CStr (message e))]),
           s))"

definition ConnectionManager ::
  "(string \<Rightarrow> string \<Rightarrow> js_error + conn) \<Rightarrow> string \<Rightarrow> string option \<Rightarrow> int \<Rightarrow> 'w
     \<Rightarrow> (js_error + unit) \<times> 'w cm" where
  "ConnectionManager newConnection endpoint' commitment' now w =
     initializeConnection newConnection
       \<lparr>endpoint = endpoint',
        commitment = (case commitment' of None \<Rightarrow> ''confirmed'' | Some c \<Rightarrow> c),
        connection = None,
        retryAttempts = 3,
        retryDelay = 1000,
        healthCheckInterval = 30000,
        isHealthy = True,
        lastHealthCheck = now,
        intervals = [],
        trace = [],
        world = w\<rparr>"

definition switchNetwork ::
  "(string \<Rightarrow> string \<Rightarrow> js_error + conn) \<Rightarrow> string \<Rightarrow> string option \<Rightarrow> 'w cm
     \<Rightarrow> (js_error + unit) \<times> 'w cm" where
  "switchNetwork newConnection newEndpoint newCommitment s =
     initializeConnection newConnection
       (s\<lparr>endpoint := newEndpoint,
          commitment := (case newCommitment of None \<Rightarrow> commitment s | Some c \<Rightarrow> c)\<rparr>)"

subsection \<open>executeWithRetry\<close>

text \<open>
  An operation receives the connection and acts on the world; it returns a value or
  throws.  While the executor sleeps, the timers of the health check may fire:
  \<open>elapse d w\<close> gives the outcomes of the probes that complete during a sleep of \<open>d\<close>
  milliseconds, in order, and the world after it.  The probe callback is the only code of
  the manager that runs then, so a sleep changes \<open>isHealthy\<close> and \<open>lastHealthCheck\<close> only.
  (A probe that completes while the operation is awaited is observed by the executor
  first at the next attempt, that is after the sleep that follows; it is accounted to
  that sleep.)
\<close>

type_synonym ('w, 'a) operation = "conn option \<Rightarrow> 'w \<Rightarrow> (js_error + 'a) \<times> 'w"
type_synonym 'w elapse = "int \<Rightarrow> 'w \<Rightarrow> probe list \<times> 'w"

definition logEvents :: "event list \<Rightarrow> 'w cm \<Rightarrow> 'w cm" where
  "logEvents es s = s\<lparr>trace := trace s @ es\<rparr>"

definition sleep :: "'w elapse \<Rightarrow> int \<Rightarrow> int \<Rightarrow> 'w cm \<Rightarrow> 'w cm" where
  "sleep el attempt delay s =
     (case el delay (world s) of
        (ps, w') \<Rightarrow>
          foldl (\<lambda>t p. healthCheck p t)
            (logEvents [Sleep attempt delay] (s\<lparr>world := w'\<rparr>))
            (if intervals s = [] then [] else ps))"

text \<open>The body of the \<open>try\<close> block of one attempt.\<close>

definition unhealthyConnection :: "int \<Rightarrow> int \<Rightarrow> js_error" where
  "unhealthyConnection attempt maxRetries =
     SolanaToolkitError ''Connection is unhealthy'' ''UNHEALTHY_CONNECTION''
       [(''attempt'', CNum attempt), (''maxRetries'', CNum maxRetries)]"

definition tryAttempt ::
  "('w, 'a) operation \<Rightarrow> int \<Rightarrow> int \<Rightarrow> 'w cm \<Rightarrow> (js_error + 'a) \<times> 'w cm" where
  "tryAttempt operation maxRetries attempt s =
     (if \<not> isHealthy s then
        (Inl (unhealthyConnection attempt maxRetries), logEvents [Unhealthy attempt] s)
      else
        (case operation (connection s) (world s) of
           (Inr v, w') \<Rightarrow> (Inr v, logEvents [Invoke attempt, Returned attempt] (s\<lparr>world := w'\<rparr>))
         | (Inl e, w') \<Rightarrow> (Inl e, logEvents [Invoke attempt] (s\<lparr>world := w'\<rparr>))))"

text \<open>
  The statement after the loop.  When the loop body never ran, \<open>lastError\<close> is
  \<open>undefined\<close> and reading its \<open>message\<close> raises a \<open>TypeError\<close>.
\<close>

definition operationFailed :: "int \<Rightarrow> js_error option \<Rightarrow> js_error" where
  "operationFailed maxRetries lastError =
     (case lastError of
        None \<Rightarrow> TypeError ''Cannot read properties of undefined (reading 'message')''
      | Some e \<Rightarrow>
          SolanaToolkitError
            (''Operation failed after '' @ showInt maxRetries @ '' attempts: '' @ message e)
            ''OPERATION_FAILED''
            [(''maxRetries'', CNum maxRetries), (''lastError'', CStr (message e))])"

function retryLoop ::
  "'w elapse \<Rightarrow> ('w, 'a) operation \<Rightarrow> int \<Rightarrow> int \<Rightarrow> js_error option \<Rightarrow> 'w cm
     \<Rightarrow> (js_error + 'a) \<times> 'w cm" where
  "retryLoop el operation maxRetries attempt lastError s =
     (if attempt \<le> maxRetries then
        (case tryAttempt operation maxRetries attempt s of
           (Inr v, s1) \<Rightarrow> (Inr v, s1)
         | (Inl e, s1) \<Rightarrow>
             (let s2 = logEvents [Caught attempt e] s1 in
              if attempt = maxRetries then (Inl (operationFailed maxRetries (Some e)), s2)
              else
                retryLoop el operation maxRetries (attempt + 1) (Some e)
                  (sleep el attempt (retryDelay s2 * 2 ^ nat (attempt - 1)) s2)))
      else (Inl (operationFailed maxRetries lastError), s))"
  by pat_completeness auto
termination
  by (relation "measure (\<lambda>(el, operation, maxRetries, attempt, lastError, s).
                  nat (maxRetries + 1 - attempt))") auto

declare retryLoop.simps [simp del]

definition executeWithRetry ::
  "'w elapse \<Rightarrow> ('w, 'a) operation \<Rightarrow> int option \<Rightarrow> 'w cm \<Rightarrow> (js_error + 'a) \<times> 'w cm" where
  "executeWithRetry el operation maxRetries s =
     retryLoop el operation
       (case maxRetries of None \<Rightarrow> retryAttempts s | Some m \<Rightarrow> m) 1 None s"

subsection \<open>Reading the trace\<close>

text \<open>
  \<open>invocations\<close> lists the attempts at which the operation was called, \<open>attempts\<close> the
  attempts that were started (called or short-circuited).  \<open>schedule\<close> keeps the starts of
  attempts \<open>(k, None)\<close> and the sleeps \<open>(k, Some delay)\<close> after attempt \<open>k\<close>, in the order
  in which they happened.
\<close>

fun invokedAt :: "event \<Rightarrow> int list" where
  "invokedAt (Invoke k) = [k]"
| "invokedAt e = []"

definition invocations :: "event list \<Rightarrow> int list" where
  "invocations tr = concat (map invokedAt tr)"

fun attemptedAt :: "event \<Rightarrow> int list" where
  "attemptedAt (Unhealthy k) = [k]"
| "attemptedAt (Invoke k) = [k]"
| "attemptedAt e = []"

definition attempts :: "event list \<Rightarrow> int list" where
  "attempts tr = concat (map attemptedAt tr)"

fun stepOf :: "event \<Rightarrow> (int \<times> int option) list" where
  "stepOf (Unhealthy k) = [(k, None)]"
| "stepOf (Invoke k) = [(k, None)]"
| "stepOf (Sleep k d) = [(k, Some d)]"
| "stepOf e = []"

definition schedule :: "event list \<Rightarrow> (int \<times> int option) list" where
  "schedule tr = concat (map stepOf tr)"

text \<open>
  The schedule the specification prescribes for attempts \<open>a\<close> to \<open>m\<close>: every attempt
  \<open>k < m\<close> is followed by a sleep of \<open>baseDelay * 2 ^ (k - 1)\<close>, and nothing follows
  attempt \<open>m\<close>.
\<close>

definition backoffSchedule :: "int \<Rightarrow> int \<Rightarrow> int \<Rightarrow> (int \<times> int option) list" where
  "backoffSchedule baseDelay a m =
     concat (map (\<lambda>k. [(k, None), (k, Some (baseDelay * 2 ^ nat (k - 1)))]) [a..m - 1])
     @ [(m, None)]"

fun probeHealthy :: "probe \<Rightarrow> bool" where
  "probeHealthy (Responded responseTime now) = (responseTime < 5000)"
| "probeHealthy (ProbeThrew m) = False"

section \<open>The RPC library and the world of the managers\<close>

text \<open>
  The classes \<open>Transaction\<close>, \<open>TransactionInstruction\<close>, \<open>PublicKey\<close>, \<open>SystemProgram\<close> and
  \<open>Connection\<close> belong to the RPC library, which is not part of the repository.  Their
  data is modelled as records; what their methods answer is a parameter (\<open>env\<close>): each
  remote call acts on the state \<open>'n\<close> of the network and returns a value or throws.
\<close>

record account_meta =
  pubkey :: string
  isSigner :: bool
  isWritable :: bool

record instruction =
  keys :: "account_meta list"
  programId :: string
  data :: "nat list"

record transaction =
  instructions :: "instruction list"
  recentBlockhash :: "string option"
  lastValidBlockHeight :: "int option"
  signatures :: "string list"

record keypair =
  publicKey :: string

record latest_blockhash =
  bh_blockhash :: string
  bh_lastValidBlockHeight :: int

text \<open>
  The answer of \<open>confirmTransaction\<close>: \<open>context.slot\<close> and \<open>value.err\<close>, the latter as the
  text \<open>JSON.stringify\<close> gives for it (\<open>None\<close> when it is \<open>null\<close>).
\<close>

record confirmation =
  conf_slot :: int
  conf_err :: "string option"

record account_info =
  lamports :: int
  owner :: string
  executable :: bool
  rentEpoch :: int
  acc_data :: "nat list"

record 'n env =
  rpcGetLatestBlockhash :: "conn \<Rightarrow> 'n \<Rightarrow> (js_error + latest_blockhash) \<times> 'n"
  rpcSendTransaction :: "conn \<Rightarrow> transaction \<Rightarrow> bool \<Rightarrow> int \<Rightarrow> 'n \<Rightarrow> (js_error + string) \<times> 'n"
  rpcConfirmTransaction ::
    "conn \<Rightarrow> string \<Rightarrow> string \<Rightarrow> int \<Rightarrow> 'n \<Rightarrow> (js_error + confirmation) \<times> 'n"
  rpcGetAccountInfo :: "conn \<Rightarrow> string \<Rightarrow> 'n \<Rightarrow> (js_error + account_info option) \<times> 'n"
  libSign :: "transaction \<Rightarrow> keypair list \<Rightarrow> js_error + string list"
  libPublicKey :: "string \<Rightarrow> js_error + string"
  libTransfer :: "string \<Rightarrow> string \<Rightarrow> int \<Rightarrow> js_error + instruction"
  probesDuring :: "int \<Rightarrow> 'n \<Rightarrow> probe list \<times> 'n"

text \<open>
  The world of the managers: the \<open>Transaction\<close> objects by reference (an operation that is
  retried mutates the same object again), the next free reference, the calls made on the
  connection so far (kept for the statements below), and the network.
\<close>

datatype rpc_call =
    GetLatestBlockhash
  | SendTransaction transaction bool int
  | ConfirmTransaction string string int
  | GetAccountInfo string

record 'n tworld =
  objs :: "nat \<Rightarrow> transaction"
  nextRef :: nat
  calls :: "rpc_call list"
  net :: 'n

definition elapseWorld :: "'n env \<Rightarrow> 'n tworld elapse" where
  "elapseWorld env d w =
     (case probesDuring env d (net w) of (ps, n') \<Rightarrow> (ps, w\<lparr>net := n'\<rparr>))"

definition called :: "rpc_call \<Rightarrow> 'n \<Rightarrow> 'n tworld \<Rightarrow> 'n tworld" where
  "called c n' w = w\<lparr>calls := calls w @ [c], net := n'\<rparr>"

section \<open>TransactionManager (transaction.js)\<close>

subsection \<open>Building blocks\<close>

text \<open>
  \<open>new Uint8Array(new Uint32Array([x]).buffer)\<close>: the value modulo \<open>2 ^ 32\<close> as four bytes,
  least significant first.
\<close>

definition uint32Bytes :: "int \<Rightarrow> nat list" where
  "uint32Bytes x =
     (let u = nat (x mod 2 ^ 32) in
      [u mod 256, u div 256 mod 256, u div 65536 mod 256, u div 16777216 mod 256])"

definition computeBudgetProgram :: string where
  "computeBudgetProgram = ''ComputeBudget111111111111111111111111111111''"

definition computeUnitInstruction :: "int \<Rightarrow> instruction" where
  "computeUnitInstruction computeUnits =
     \<lparr>keys = [], programId = computeBudgetProgram, data = 0 # uint32Bytes computeUnits\<rparr>"

definition priorityFeeInstruction :: "int \<Rightarrow> instruction" where
  "priorityFeeInstruction priorityFee =
     \<lparr>keys = [], programId = computeBudgetProgram, data = 3 # uint32Bytes priorityFee\<rparr>"

definition memoInstruction :: "string \<Rightarrow> instruction" where
  "memoInstruction memo =
     \<lparr>keys = [], programId = ''MemoSq4gqABAXKb96qnH8TysNcWxMyWCqXgDLGmfcHr'',
      data = map of_char memo\<rparr>"

definition newTransaction :: transaction where
  "newTransaction =
     \<lparr>instructions = [], recentBlockhash = None, lastValidBlockHeight = None, signatures = []\<rparr>"

definition add :: "instruction \<Rightarrow> transaction \<Rightarrow> transaction" where
  "add i t = t\<lparr>instructions := instructions t @ [i]\<rparr>"

text \<open>The two \<open>if\<close> statements of \<open>executeTransaction\<close> that append the budget instructions.\<close>

definition augmentBudget :: "int \<Rightarrow> int \<Rightarrow> transaction \<Rightarrow> transaction" where
  "augmentBudget computeUnits priorityFee t =
     (let t1 = (if computeUnits \<noteq> 200000 then add (computeUnitInstruction computeUnits) t else t)
      in if priorityFee > 0 then add (priorityFeeInstruction priorityFee) t1 else t1)"

record tx_options =
  memo :: "string option"
  computeUnits :: "int option"
  priorityFee :: "int option"
  skipPreflight :: "bool option"
  maxRetries :: "int option"

definition noOptions :: tx_options where
  "noOptions = \<lparr>memo = None, computeUnits = None, priorityFee = None, skipPreflight = None,
                maxRetries = None\<rparr>"

record tx_result =
  r_signature :: string
  r_slot :: int
  r_confirmation :: "string option"

subsection \<open>executeTransaction\<close>

text \<open>
  The closure given to \<open>executeWithRetry\<close>.  \<open>tx\<close> is the reference of the transaction
  object the closure captured; every step that mutates the object writes it back, so a
  failure later in the same attempt leaves the mutation in place.  The call of the
  logger after confirmation only prints and is left out.
\<close>

definition transactionOperation ::
  "'n env \<Rightarrow> nat \<Rightarrow> keypair list \<Rightarrow> int \<Rightarrow> int \<Rightarrow> bool \<Rightarrow> int
     \<Rightarrow> ('n tworld, tx_result) operation" where
  "transactionOperation env tx signers cu fee skip retries connection' w =
     (case connection' of
        None \<Rightarrow> (Inl (TypeError ''Cannot read properties of null (reading 'getLatestBlockhash')''), w)
      | Some c \<Rightarrow>
     (case rpcGetLatestBlockhash env c (net w) of
        (Inl e, n1) \<Rightarrow> (Inl e, called GetLatestBlockhash n1 w)
      | (Inr latestBlockhash, n1) \<Rightarrow>
     (let w1 = called GetLatestBlockhash n1 w;
          t1 = (objs w1 tx)\<lparr>recentBlockhash := Some (bh_blockhash latestBlockhash),
                  lastValidBlockHeight := Some (bh_lastValidBlockHeight latestBlockhash)\<rparr>;
          t2 = augmentBudget cu fee t1;
          w2 = w1\<lparr>objs := (objs w1)(tx := t2)\<rparr>
      in
     (case libSign env t2 signers of
        Inl e \<Rightarrow> (Inl e, w2)
      | Inr sigs \<Rightarrow>
     (let t3 = t2\<lparr>signatures := sigs\<rparr>;
          w3 = w2\<lparr>objs := (objs w2)(tx := t3)\<rparr>
      in
     (case rpcSendTransaction env c t3 skip retries (net w3) of
        (Inl e, n4) \<Rightarrow> (Inl e, called (SendTransaction t3 skip retries) n4 w3)
      | (Inr signature, n4) \<Rightarrow>
     (let w4 = called (SendTransaction t3 skip retries) n4 w3;
          cc = ConfirmTransaction signature (bh_blockhash latestBlockhash)
                 (bh_lastValidBlockHeight latestBlockhash)
      in
     (case rpcConfirmTransaction env c signature (bh_blockhash latestBlockhash)
             (bh_lastValidBlockHeight latestBlockhash) (net w4) of
        (Inl e, n5) \<Rightarrow> (Inl e, called cc n5 w4)
      | (Inr confirmation, n5) \<Rightarrow>
     (case conf_err confirmation of
        Some err \<Rightarrow> (Inl (Error (''Transaction failed: '' @ err)), called cc n5 w4)
      | None \<Rightarrow>
          (Inr \<lparr>r_signature = signature, r_slot = conf_slot confirmation,
                r_confirmation = conf_err confirmation\<rparr>,
           called cc n5 w4))))))))))"

definition executeTransaction ::
  "'n env \<Rightarrow> nat \<Rightarrow> keypair list \<Rightarrow> tx_options \<Rightarrow> 'n tworld cm
     \<Rightarrow> (js_error + tx_result) \<times> 'n tworld cm" where
  "executeTransaction env tx signers options s =
     (let cu = (case computeUnits options of None \<Rightarrow> 200000 | Some v \<Rightarrow> v);
          fee = (case priorityFee options of None \<Rightarrow> 0 | Some v \<Rightarrow> v);
          skip = (case skipPreflight options of None \<Rightarrow> False | Some v \<Rightarrow> v);
          retries = (case maxRetries options of None \<Rightarrow> 3 | Some v \<Rightarrow> v)
      in
      case executeWithRetry (elapseWorld env)
             (transactionOperation env tx signers cu fee skip retries) None s of
        (Inr v, s') \<Rightarrow> (Inr v, s')
      | (Inl error, s') \<Rightarrow>
          (Inl (SolanaToolkitError
                  (''Failed to execute transaction: '' @ message error)
                  ''TRANSACTION_EXECUTION_ERROR''
                  [(''error'', CStr (message error))]),
           s'))"

subsection \<open>sendTransaction\<close>

definition allocTransaction :: "'n tworld cm \<Rightarrow> nat \<times> 'n tworld cm" where
  "allocTransaction s =
     (let w = world s; r = nextRef w
      in (r, s\<lparr>world := w\<lparr>objs := (objs w)(r := newTransaction), nextRef := Suc r\<rparr>\<rparr>))"

definition addTo :: "nat \<Rightarrow> instruction \<Rightarrow> 'n tworld cm \<Rightarrow> 'n tworld cm" where
  "addTo r i s = (let w = world s in s\<lparr>world := w\<lparr>objs := (objs w)(r := add i (objs w r))\<rparr>\<rparr>)"

text \<open>The body of the \<open>try\<close> block of \<open>sendTransaction\<close>.\<close>

definition sendTransactionBody ::
  "'n env \<Rightarrow> keypair \<Rightarrow> string \<Rightarrow> int \<Rightarrow> tx_options \<Rightarrow> 'n tworld cm
     \<Rightarrow> (js_error + tx_result) \<times> 'n tworld cm" where
  "sendTransactionBody env senderAccount receiverAccount amount options s =
     (let memo' = (case memo options of None \<Rightarrow> [] | Some v \<Rightarrow> v);
          cu = (case computeUnits options of None \<Rightarrow> 200000 | Some v \<Rightarrow> v);
          fee = (case priorityFee options of None \<Rightarrow> 0 | Some v \<Rightarrow> v);
          skip = (case skipPreflight options of None \<Rightarrow> False | Some v \<Rightarrow> v)
      in
      if amount \<le> 0 then
        (Inl (SolanaToolkitError ''Transaction amount must be greater than 0'' ''INVALID_AMOUNT''
                [(''amount'', CNum amount)]),
         s)
      else
        (case allocTransaction s of
           (tx, s1) \<Rightarrow>
             (let s2 = (if memo' \<noteq> [] then addTo tx (memoInstruction memo') s1 else s1) in
              case libPublicKey env receiverAccount of
                Inl e \<Rightarrow> (Inl e, s2)
              | Inr toPubkey \<Rightarrow>
                  (case libTransfer env (publicKey senderAccount) toPubkey amount of
                     Inl e \<Rightarrow> (Inl e, s2)
                   | Inr transfer \<Rightarrow>
                       executeTransaction env tx [senderAccount]
                         \<lparr>memo = None, computeUnits = Some cu, priorityFee = Some fee,
                          skipPreflight = Some skip, maxRetries = None\<rparr>
                         (addTo tx transfer s2)))))"

definition sendTransaction ::
  "'n env \<Rightarrow> keypair \<Rightarrow> string \<Rightarrow> int \<Rightarrow> tx_options \<Rightarrow> 'n tworld cm
     \<Rightarrow> (js_error + tx_result) \<times> 'n tworld cm" where
  "sendTransaction env senderAccount receiverAccount amount options s =
     (case sendTransactionBody env senderAccount receiverAccount amount options s of
        (Inr v, s') \<Rightarrow> (Inr v, s')
      | (Inl error, s') \<Rightarrow>
          (Inl (SolanaToolkitError
                  (''Failed to send transaction: '' @ message error)
                  ''TRANSACTION_SEND_ERROR''
                  [(''sender'', CStr (publicKey senderAccount)),
                   (''receiver'', CStr receiverAccount),
                   (''amount'', CNum amount),
                   (''error'', CStr (message error))]),
           s'))"

subsection \<open>batchTransactions\<close>

record batch_entry =
  index :: nat
  success :: bool
  result :: "tx_result option"
  error :: "string option"

record batch_result =
  total :: nat
  successful :: nat
  failed :: nat
  results :: "batch_entry list"

text \<open>
  The \<open>for\<close> loop over \<open>transactions\<close>: \<open>i\<close> is the index of the head of the list that is
  still to be processed and \<open>acc\<close> the array \<open>results\<close>.  Only \<open>maxRetries\<close> is passed on to
  \<open>executeTransaction\<close>.
\<close>

fun batchLoop ::
  "'n env \<Rightarrow> keypair list \<Rightarrow> int \<Rightarrow> nat \<Rightarrow> nat list \<Rightarrow> batch_entry list \<Rightarrow> 'n tworld cm
     \<Rightarrow> batch_entry list \<times> 'n tworld cm" where
  "batchLoop env signers retries i [] acc s = (acc, s)"
| "batchLoop env signers retries i (tx # txs) acc s =
     (case executeTransaction env tx signers (noOptions\<lparr>maxRetries := Some retries\<rparr>) s of
        (Inr r, s') \<Rightarrow>
          batchLoop env signers retries (Suc i) txs
            (acc @ [\<lparr>index = i, success = True, result = Some r, error = None\<rparr>]) s'
      | (Inl e, s') \<Rightarrow>
          batchLoop env signers retries (Suc i) txs
            (acc @ [\<lparr>index = i, success = False, result = None, error = Some (message e)\<rparr>]) s')"

definition batchTransactions ::
  "'n env \<Rightarrow> nat list \<Rightarrow> keypair list \<Rightarrow> tx_options \<Rightarrow> 'n tworld cm
     \<Rightarrow> (js_error + batch_result) \<times> 'n tworld cm" where
  "batchTransactions env transactions signers options s =
     (let retries = (case maxRetries options of None \<Rightarrow> 3 | Some v \<Rightarrow> v) in
      case batchLoop env signers retries 0 transactions [] s of
        (rs, s') \<Rightarrow>
          (Inr \<lparr>total = length transactions,
                successful = length (filter (\<lambda>r. success r) rs),
                failed = length (filter (\<lambda>r. \<not> success r) rs),
                results = rs\<rparr>,
           s'))"

section \<open>AccountManager.getAccountInfo (account.js)\<close>

definition accountInfoOperation ::
  "'n env \<Rightarrow> string \<Rightarrow> ('n tworld, account_info) operation" where
  "accountInfoOperation env pubKey connection' w =
     (case connection' of
        None \<Rightarrow> (Inl (TypeError ''Cannot read properties of null (reading 'getAccountInfo')''), w)
      | Some c \<Rightarrow>
          (case rpcGetAccountInfo env c pubKey (net w) of
             (Inl e, n1) \<Rightarrow> (Inl e, called (GetAccountInfo pubKey) n1 w)
           | (Inr None, n1) \<Rightarrow>
               (Inl (SolanaToolkitError ''Account not found'' ''ACCOUNT_NOT_FOUND''
                       [(''publicKey'', CStr pubKey)]),
                called (GetAccountInfo pubKey) n1 w)
           | (Inr (Some accountInfo), n1) \<Rightarrow>
               (Inr accountInfo, called (GetAccountInfo pubKey) n1 w)))"

definition getAccountInfo ::
  "'n env \<Rightarrow> string \<Rightarrow> 'n tworld cm \<Rightarrow> (js_error + account_info) \<times> 'n tworld cm" where
  "getAccountInfo env publicKey' s =
     (case (case libPublicKey env publicKey' of
              Inl e \<Rightarrow> (Inl e, s)
            | Inr pubKey \<Rightarrow>
                executeWithRetry (elapseWorld env) (accountInfoOperation env pubKey) None s) of
        (Inr v, s') \<Rightarrow> (Inr v, s')
      | (Inl error', s') \<Rightarrow>
          if instanceofSolanaToolkitError error' then (Inl error', s')
          else
            (Inl (SolanaToolkitError
                    (''Failed to get account info: '' @ message error')
                    ''ACCOUNT_INFO_ERROR''
                    [(''publicKey'', CStr publicKey'), (''error'', CStr (message error'))]),
             s'))"

section \<open>Reading results and the call log\<close>

definition errorCode :: "js_error + 'a \<Rightarrow> string option" where
  "errorCode r = (case r of Inl e \<Rightarrow> code e | Inr v \<Rightarrow> None)"

text \<open>The transactions handed to \<open>connection.sendTransaction\<close>, in the order of the calls.\<close>

fun submittedIn :: "rpc_call \<Rightarrow> transaction list" where
  "submittedIn (SendTransaction t skip retries) = [t]"
| "submittedIn c = []"

definition submitted :: "rpc_call list \<Rightarrow> transaction list" where
  "submitted cs = concat (map submittedIn cs)"

section \<open>Concrete inputs\<close>

text \<open>Managers, environments and operations at which the statements below are evaluated.\<close>

definition connectOk :: "string \<Rightarrow> string \<Rightarrow> js_error + conn" where
  "connectOk e c = Inr \<lparr>c_endpoint = e, c_commitment = c\<rparr>"

definition manager0 :: "nat cm" where
  "manager0 = snd (ConnectionManager connectOk ''http://localhost:8899'' None 0 0)"



definition failingProbes :: "nat elapse" where
  "failingProbes d w = ([ProbeThrew ''timeout''], w)"

definition failsTwice :: "(nat, nat) operation" where
  "failsTwice c w =
     (if w = 0 then Inl (Error ''connection reset'')
      else if w = 1 then Inl (Error ''rate limited'')
      else Inr w, Suc w)"

definition alwaysFails :: "(nat, nat) operation" where
  "alwaysFails c w = (Inl (Error ''boom''), Suc w)"


definition unhealthy0 :: "nat cm" where
  "unhealthy0 = manager0\<lparr>isHealthy := False\<rparr>"

section \<open>Properties\<close>

text \<open>
  \<^bold>\<open>Helper lemmas.\<close>  A sleep and an attempt leave the retry delay, the connection and the
  timers alone; a sleep appends one event to the trace.
\<close>

lemma foldl_healthCheck_frame:
  "retryDelay (foldl (\<lambda>t p. healthCheck p t) s ps) = retryDelay s
   \<and> trace (foldl (\<lambda>t p. healthCheck p t) s ps) = trace s
   \<and> world (foldl (\<lambda>t p. healthCheck p t) s ps) = world s
   \<and> connection (foldl (\<lambda>t p. healthCheck p t) s ps) = connection s
   \<and> intervals (foldl (\<lambda>t p. healthCheck p t) s ps) = intervals s"
proof (induction ps arbitrary: s)
  case Nil
  show ?case by simp
next
  case (Cons p ps)
  show ?case by (cases p) (simp_all add: Cons.IH)
qed

lemma sleep_frame:
  "retryDelay (sleep el a d s) = retryDelay s"
  "trace (sleep el a d s) = trace s @ [Sleep a d]"
  "connection (sleep el a d s) = connection s"
  "intervals (sleep el a d s) = intervals s"
  by (simp_all add: sleep_def logEvents_def foldl_healthCheck_frame split: prod.splits)

lemma tryAttempt_frame:
  "retryDelay (snd (tryAttempt op n a s)) = retryDelay s"
  "connection (snd (tryAttempt op n a s)) = connection s"
  "intervals (snd (tryAttempt op n a s)) = intervals s"
  by (simp_all add: tryAttempt_def logEvents_def split: prod.splits sum.splits)

lemma backoffSchedule_last: "backoffSchedule b a a = [(a, None)]"
  by (simp add: backoffSchedule_def)

lemma backoffSchedule_step:
  "a < m \<Longrightarrow> backoffSchedule b a m
     = [(a, None), (a, Some (b * 2 ^ nat (a - 1)))] @ backoffSchedule b (a + 1) m"
  by (simp add: backoffSchedule_def upto_rec1 [of a "m - 1"])

lemma schedule_append: "schedule (xs @ ys) = schedule xs @ schedule ys"
  by (simp add: schedule_def)

lemma tryAttempt_Inl:
  assumes "tryAttempt op n a s = (Inl e, s1)"
  shows "\<exists>x. trace s1 = trace s @ [x] \<and> stepOf x = [(a, None)]
           \<and> x = (if isHealthy s then Invoke a else Unhealthy a)"
  using assms
  by (auto simp: tryAttempt_def logEvents_def split: if_splits prod.splits sum.splits)

lemma backoffSchedule_nonempty: "backoffSchedule b a m \<noteq> []"
  by (simp add: backoffSchedule_def)

lemma retryLoop_Inr:
  "a \<le> n \<Longrightarrow> tryAttempt op n a s = (Inr v, s1) \<Longrightarrow> retryLoop el op n a le s = (Inr v, s1)"
  by (simp add: retryLoop.simps [of el op n a le s])

lemma retryLoop_last:
  "tryAttempt op n n s = (Inl e, s1) \<Longrightarrow>
   retryLoop el op n n le s = (Inl (operationFailed n (Some e)), logEvents [Caught n e] s1)"
  by (simp add: retryLoop.simps [of el op n n le s])

lemma retryLoop_retry:
  "a < n \<Longrightarrow> tryAttempt op n a s = (Inl e, s1) \<Longrightarrow>
   retryLoop el op n a le s =
     retryLoop el op n (a + 1) (Some e)
       (sleep el a (retryDelay s1 * 2 ^ nat (a - 1)) (logEvents [Caught a e] s1))"
  by (simp add: retryLoop.simps [of el op n a le s] logEvents_def)

lemma retryLoop_none:
  "n < a \<Longrightarrow> retryLoop el op n a le s = (Inl (operationFailed n le), s)"
  by (simp add: retryLoop.simps [of el op n a le s])

lemma retryLoop_schedule:
  "1 \<le> a \<Longrightarrow> a \<le> n \<Longrightarrow> retryLoop el op n a le s = (r, s') \<Longrightarrow>
   \<exists>m tr. a \<le> m \<and> m \<le> n \<and> trace s' = trace s @ tr
      \<and> schedule tr = backoffSchedule (retryDelay s) a m
      \<and> (\<forall>k. Returned k \<in> set tr \<longrightarrow> k = m \<and> \<not> isl r)
      \<and> (case r of
           Inr v \<Rightarrow> last tr = Returned m \<and> (\<exists>w. op (connection s) w = (Inr v, world s'))
         | Inl err \<Rightarrow> m = n \<and> (\<exists>e. last tr = Caught n e \<and> err = operationFailed n (Some e)))"
proof (induction "nat (n - a)" arbitrary: a le s)
  case 0
  then have an: "a = n" by simp
  obtain r1 s1 where t: "tryAttempt op n n s = (r1, s1)" by (cases "tryAttempt op n n s")
  show ?case
  proof (cases r1)
    case (Inr v)
    from retryLoop_Inr [OF _ t [unfolded Inr], of el le] 0(4) an
    have "r = Inr v" "s' = s1" by simp_all
    moreover from t Inr have "trace s1 = trace s @ [Invoke n, Returned n]"
      "\<exists>w. op (connection s) w = (Inr v, world s1)"
      by (auto simp: tryAttempt_def logEvents_def split: if_splits prod.splits sum.splits)
    ultimately show ?thesis using an
      by (intro exI [of _ n] exI [of _ "[Invoke n, Returned n]"])
         (simp add: schedule_def backoffSchedule_last)
  next
    case (Inl e)
    from tryAttempt_Inl [OF t [unfolded Inl]] obtain x
      where x: "trace s1 = trace s @ [x]" "stepOf x = [(n, None)]"
        and xr: "\<forall>k. x \<noteq> Returned k" by (auto split: if_splits)
    from retryLoop_last [OF t [unfolded Inl], of el le] 0(4) an
    have "r = Inl (operationFailed n (Some e))" "s' = logEvents [Caught n e] s1" by simp_all
    then show ?thesis using an x xr
      by (intro exI [of _ n] exI [of _ "[x, Caught n e]"])
         (auto simp add: schedule_def backoffSchedule_last logEvents_def)
  qed
next
  case (Suc k)
  then have lt: "a < n" by simp
  obtain r1 s1 where t: "tryAttempt op n a s = (r1, s1)" by (cases "tryAttempt op n a s")
  show ?case
  proof (cases r1)
    case (Inr v)
    from retryLoop_Inr [OF _ t [unfolded Inr], of el le] Suc(4,5)
    have "r = Inr v" "s' = s1" by simp_all
    moreover from t Inr have "trace s1 = trace s @ [Invoke a, Returned a]"
      "\<exists>w. op (connection s) w = (Inr v, world s1)"
      by (auto simp: tryAttempt_def logEvents_def split: if_splits prod.splits sum.splits)
    ultimately show ?thesis using Suc(4)
      by (intro exI [of _ a] exI [of _ "[Invoke a, Returned a]"])
         (simp add: schedule_def backoffSchedule_last)
  next
    case (Inl e)
    from tryAttempt_Inl [OF t [unfolded Inl]] obtain x
      where x: "trace s1 = trace s @ [x]" "stepOf x = [(a, None)]"
        and xr: "\<forall>k. x \<noteq> Returned k" by (auto split: if_splits)
    have rd1: "retryDelay s1 = retryDelay s"
      using tryAttempt_frame(1) [of op n a s] t by simp
    define d where "d = retryDelay s * 2 ^ nat (a - 1)"
    define s3 where "s3 = sleep el a d (logEvents [Caught a e] s1)"
    have c1: "connection s1 = connection s"
      using tryAttempt_frame(2) [of op n a s] t by simp
    have s3: "trace s3 = trace s @ [x, Caught a e, Sleep a d]" "retryDelay s3 = retryDelay s"
      "connection s3 = connection s"
      by (simp_all add: s3_def sleep_frame logEvents_def x rd1 c1)
    have rec: "retryLoop el op n (a + 1) (Some e) s3 = (r, s')"
      using retryLoop_retry [OF lt t [unfolded Inl], of el le] Suc(5)
      by (simp add: s3_def d_def rd1)
    have k: "k = nat (n - (a + 1))" using Suc(2) by simp
    have "a + 1 \<le> n" "1 \<le> a + 1" using lt Suc(3) by simp_all
    from Suc(1) [OF k this(2) this(1) rec]
    obtain m tr where m0: "a + 1 \<le> m" "m \<le> n" "trace s' = trace s3 @ tr"
        "schedule tr = backoffSchedule (retryDelay s3) (a + 1) m"
        "(case r of
            Inr v \<Rightarrow> last tr = Returned m \<and> (\<exists>w. op (connection s3) w = (Inr v, world s'))
          | Inl err \<Rightarrow> m = n \<and> (\<exists>e. last tr = Caught n e \<and> err = operationFailed n (Some e)))"
        "\<forall>k. Returned k \<in> set tr \<longrightarrow> k = m \<and> \<not> isl r"
      by blast
    note m = m0 [unfolded s3(2) s3(3)]
    from m(4) have ne: "tr \<noteq> []"
      using backoffSchedule_nonempty [of "retryDelay s" "a + 1" m] by (auto simp: schedule_def)
    have sch: "schedule ([x, Caught a e, Sleep a d] @ tr) = backoffSchedule (retryDelay s) a m"
      using m(1,4) x(2) by (simp add: schedule_append backoffSchedule_step [of a m] d_def)
         (simp add: schedule_def)
    show ?thesis
      using m(1,2,3,5,6) s3(1) sch ne xr
      by (intro exI [of _ m] exI [of _ "[x, Caught a e, Sleep a d] @ tr"])
         (auto split: sum.splits)
  qed
qed


lemma foldl_healthCheck_unhealthy:
  "\<not> isHealthy s \<Longrightarrow> \<forall>p\<in>set ps. \<not> probeHealthy p \<Longrightarrow> \<not> isHealthy (foldl (\<lambda>t p. healthCheck p t) s ps)"
proof (induction ps arbitrary: s)
  case Nil
  then show ?case by simp
next
  case (Cons p ps)
  from Cons.prems have "\<not> isHealthy (healthCheck p s)" by (cases p) simp_all
  with Cons show ?case by simp
qed


lemma sleep_unhealthy:
  "\<not> isHealthy s \<Longrightarrow> \<forall>d w. \<forall>p\<in>set (fst (el d w)). \<not> probeHealthy p \<Longrightarrow> \<not> isHealthy (sleep el a d s)"
proof -
  assume h: "\<not> isHealthy s" and ps: "\<forall>d w. \<forall>p\<in>set (fst (el d w)). \<not> probeHealthy p"
  obtain qs w' where e: "el d (world s) = (qs, w')" by (cases "el d (world s)")
  with ps have "\<forall>p\<in>set qs. \<not> probeHealthy p" by (metis fst_conv)
  then show ?thesis using h e
    by (simp add: sleep_def logEvents_def foldl_healthCheck_unhealthy)
qed


lemma retryLoop_trace_prefix:
  "1 \<le> a \<Longrightarrow> a \<le> n \<Longrightarrow> \<exists>tr. trace (snd (retryLoop el op n a le s)) = trace s @ tr"
  using retryLoop_schedule [of a n el op le s "fst (retryLoop el op n a le s)" "snd (retryLoop el op n a le s)"]
  by auto



lemma attempts_schedule: "attempts tr = map fst (filter (\<lambda>x. snd x = None) (schedule tr))"
proof (induction tr)
  case Nil
  show ?case by (simp add: attempts_def schedule_def)
next
  case (Cons x tr)
  then show ?case by (cases x) (simp_all add: attempts_def schedule_def)
qed

lemma attempts_backoffSchedule:
  "a \<le> m \<Longrightarrow> map fst (filter (\<lambda>x. snd x = None) (backoffSchedule b a m)) = [a..m]"
proof (induction "nat (m - a)" arbitrary: a)
  case 0
  then have "a = m" by simp
  then show ?case by (simp add: backoffSchedule_last)
next
  case (Suc j)
  then have lt: "a < m" by simp
  from Suc have "map fst (filter (\<lambda>x. snd x = None) (backoffSchedule b (a + 1) m)) = [a + 1..m]"
    by simp
  with lt show ?case
    by (simp add: backoffSchedule_step [OF lt] upto_rec1 [of a m])
qed


lemma invocations_no_Invoke: "\<forall>k. Invoke k \<notin> set tr \<Longrightarrow> invocations tr = []"
proof (induction tr)
  case Nil
  show ?case by (simp add: invocations_def)
next
  case (Cons x tr)
  then show ?case by (cases x) (auto simp: invocations_def)
qed

lemma tryAttempt_unhealthy:
  "\<not> isHealthy s \<Longrightarrow> tryAttempt op n a s = (Inl (unhealthyConnection a n), logEvents [Unhealthy a] s)"
  by (simp add: tryAttempt_def)

lemma retryLoop_unhealthy:
  "1 \<le> a \<Longrightarrow> a \<le> n \<Longrightarrow> \<not> isHealthy s \<Longrightarrow> \<forall>d w. \<forall>p\<in>set (fst (el d w)). \<not> probeHealthy p \<Longrightarrow>
   retryLoop el op n a le s = (r, s') \<Longrightarrow> trace s' = trace s @ tr \<Longrightarrow>
   (\<forall>k. Invoke k \<notin> set tr) \<and> r = Inl (operationFailed n (Some (unhealthyConnection n n)))
   \<and> retryLoop el op' n a le s = (r, s')"
proof (induction "nat (n - a)" arbitrary: a le s tr)
  case 0
  then have an: "a = n" by simp
  note t = tryAttempt_unhealthy [OF 0(4), of _ n n]
  from retryLoop_last [where el = el and le = le and op = op, OF t] 0(6) an
  have "r = Inl (operationFailed n (Some (unhealthyConnection n n)))"
    "s' = logEvents [Caught n (unhealthyConnection n n)] (logEvents [Unhealthy n] s)" by simp_all
  moreover have "retryLoop el op' n a le s = retryLoop el op n a le s"
    unfolding an retryLoop_last [where op = op, OF t] retryLoop_last [where op = op', OF t] ..
  ultimately show ?case using 0(6,7) by (auto simp: logEvents_def)
next
  case (Suc j)
  then have lt: "a < n" by simp
  note t = tryAttempt_unhealthy [OF Suc(5), of _ n a]
  define e where "e = unhealthyConnection a n"
  define s1 where "s1 = logEvents [Unhealthy a] s"
  define d where "d = retryDelay s1 * 2 ^ nat (a - 1)"
  define s3 where "s3 = sleep el a d (logEvents [Caught a e] s1)"
  have s3: "trace s3 = trace s @ [Unhealthy a, Caught a e, Sleep a d]"
    by (simp_all add: s3_def s1_def sleep_frame logEvents_def)
  have h3: "\<not> isHealthy s3"
    unfolding s3_def using Suc(5,6) by (intro sleep_unhealthy) (simp_all add: logEvents_def s1_def)
  have unf: "retryLoop el f n a le s = retryLoop el f n (a + 1) (Some e) s3" for f :: "('a, 'b) operation"
    using retryLoop_retry [where el = el and le = le and op = f, OF lt t] by (simp add: s3_def d_def s1_def e_def)
  from unf [of op] Suc(7) have rec: "retryLoop el op n (a + 1) (Some e) s3 = (r, s')" by simp
  have k: "j = nat (n - (a + 1))" using Suc(2) by simp
  have b: "a + 1 \<le> n" "1 \<le> a + 1" using lt Suc(3) by simp_all
  from retryLoop_trace_prefix [OF b(2) b(1), of el op "Some e" s3] rec
  obtain tr' where tr': "trace s' = trace s3 @ tr'" by auto
  with s3(1) Suc(8) have tr: "tr = [Unhealthy a, Caught a e, Sleep a d] @ tr'" by simp
  from Suc(1) [OF k b(2) b(1) h3 Suc(6) rec tr'] show ?case
    unfolding tr unf [of op'] by auto
qed




lemma distinct_attempts:
  "distinct (attempts tr) \<Longrightarrow> Unhealthy k \<in> set tr \<Longrightarrow> k \<notin> set (invocations tr)"
proof (induction tr)
  case Nil
  then show ?case by simp
next
  case (Cons x tr)
  have sub: "set (invocations tr) \<subseteq> set (attempts tr)" for tr
  proof (induction tr)
    case Nil
    show ?case by (simp add: invocations_def attempts_def)
  next
    case (Cons y tr)
    then show ?case by (cases y) (auto simp: invocations_def attempts_def)
  qed
  have mem: "Unhealthy k \<in> set tr \<Longrightarrow> k \<in> set (attempts tr)" for tr
    by (induction tr) (auto simp: attempts_def)
  from Cons show ?case
    using sub [of tr] mem [of tr]
    by (cases x) (auto simp: invocations_def attempts_def)
qed


text \<open>
  \<^bold>\<open>C2\<close> (health gate).  An attempt that starts with \<open>isHealthy\<close> false throws
  \<open>UNHEALTHY_CONNECTION\<close> and leaves the world as it is, whatever the operation; in every call
  such an attempt \<open>k\<close> is one of the attempts \<open>1, ..., n\<close> and the operation is not invoked at
  \<open>k\<close>.  With the flag false throughout (false at the start, every probe slow or
  failing), a call with limit \<open>n \<ge> 1\<close> invokes the operation zero times, makes attempts
  \<open>1, ..., n\<close> and raises \<open>OPERATION_FAILED\<close> carrying the unhealthy condition; its outcome
  is the same for every operation.
\<close>

theorem executeWithRetry_health_gate:
  assumes "n = (case limit of None \<Rightarrow> retryAttempts s | Some m \<Rightarrow> m)" and "1 \<le> n"
    and "executeWithRetry el op limit s = (r, s')" and "trace s' = trace s @ tr"
  shows "(\<forall>a t. \<not> isHealthy t \<longrightarrow>
            tryAttempt op n a t = (Inl (unhealthyConnection a n), logEvents [Unhealthy a] t))
       \<and> (\<forall>k. Unhealthy k \<in> set tr \<longrightarrow>
            k \<in> set (attempts tr) \<and> k \<notin> set (invocations tr) \<and> 1 \<le> k \<and> k \<le> n)
       \<and> (\<not> isHealthy s \<and> (\<forall>d w. \<forall>p\<in>set (fst (el d w)). \<not> probeHealthy p) \<longrightarrow>
            invocations tr = [] \<and> attempts tr = [1..n] \<and>
            r = Inl (SolanaToolkitError
                       (''Operation failed after '' @ showInt n @ '' attempts: Connection is unhealthy'')
                       ''OPERATION_FAILED''
                       [(''maxRetries'', CNum n), (''lastError'', CStr ''Connection is unhealthy'')]) \<and>
            (\<forall>op'. executeWithRetry el op' limit s = (r, s')))"
proof -
  from assms have run: "retryLoop el op n 1 None s = (r, s')"
    by (simp add: executeWithRetry_def)
  from retryLoop_schedule [OF _ assms(2) run] assms(4)
  obtain m where m: "1 \<le> m" "m \<le> n"
    "schedule tr = backoffSchedule (retryDelay s) 1 m"
    "case r of Inr v \<Rightarrow> last tr = Returned m \<and> (\<exists>w. op (connection s) w = (Inr v, world s'))
       | Inl err \<Rightarrow> m = n \<and> (\<exists>e. last tr = Caught n e \<and> err = operationFailed n (Some e))"
    by auto
  have att: "attempts tr = [1..m]"
    using m(1,3) by (simp add: attempts_schedule attempts_backoffSchedule)
  have p1: "\<forall>a t. \<not> isHealthy t \<longrightarrow>
            tryAttempt op n a t = (Inl (unhealthyConnection a n), logEvents [Unhealthy a] t)"
    by (simp add: tryAttempt_unhealthy)
  have p2: "k \<in> set (attempts tr) \<and> k \<notin> set (invocations tr) \<and> 1 \<le> k \<and> k \<le> n"
    if u: "Unhealthy k \<in> set tr" for k
  proof -
    have d: "distinct (attempts tr)" by (simp add: att)
    have "k \<in> set (attempts tr)" using u by (induction tr) (auto simp: attempts_def)
    with distinct_attempts [OF d u] att m(2) show ?thesis by auto
  qed
  have p3: "invocations tr = [] \<and> attempts tr = [1..n] \<and>
            r = Inl (SolanaToolkitError
                       (''Operation failed after '' @ showInt n @ '' attempts: Connection is unhealthy'')
                       ''OPERATION_FAILED''
                       [(''maxRetries'', CNum n), (''lastError'', CStr ''Connection is unhealthy'')]) \<and>
            (\<forall>op'. executeWithRetry el op' limit s = (r, s'))"
    if "\<not> isHealthy s \<and> (\<forall>d w. \<forall>p\<in>set (fst (el d w)). \<not> probeHealthy p)"
  proof -
    from that have h: "\<not> isHealthy s" "\<forall>d w. \<forall>p\<in>set (fst (el d w)). \<not> probeHealthy p" by auto
    have "(\<forall>k. Invoke k \<notin> set tr) \<and> r = Inl (operationFailed n (Some (unhealthyConnection n n)))
          \<and> retryLoop el op' n 1 None s = (r, s')" for op'
      by (rule retryLoop_unhealthy [OF _ assms(2) h run assms(4)]) simp
    then have "\<forall>k. Invoke k \<notin> set tr" "r = Inl (operationFailed n (Some (unhealthyConnection n n)))"
      "\<forall>op'. executeWithRetry el op' limit s = (r, s')"
      using assms(1) by (auto simp: executeWithRetry_def)
    moreover from this(2) m(4) have "m = n" by simp
    ultimately show ?thesis using att
      by (simp add: invocations_no_Invoke operationFailed_def unhealthyConnection_def)
  qed
  from p1 p2 p3 show ?thesis by blast
qed

theorem executeWithRetry_health_gate_witness:
  "invocations [Unhealthy 1, Caught 1 (unhealthyConnection 1 3), Sleep 1 1000,
                Unhealthy 2, Caught 2 (unhealthyConnection 2 3), Sleep 2 2000,
                Unhealthy 3, Caught 3 (unhealthyConnection 3 3)] = []
   \<and> fst (executeWithRetry failingProbes failsTwice None unhealthy0) =
         Inl (SolanaToolkitError ''Operation failed after 3 attempts: Connection is unhealthy''
                ''OPERATION_FAILED''
                [(''maxRetries'', CNum 3), (''lastError'', CStr ''Connection is unhealthy'')])
   \<and> executeWithRetry failingProbes alwaysFails None unhealthy0
       = executeWithRetry failingProbes failsTwice None unhealthy0
   \<and> 2 \<notin> set (invocations [Unhealthy 1, Caught 1 (unhealthyConnection 1 3), Sleep 1 1000,
                Unhealthy 2, Caught 2 (unhealthyConnection 2 3), Sleep 2 2000,
                Unhealthy 3, Caught 3 (unhealthyConnection 3 3)])"
proof -
  let ?tr = "[Unhealthy 1, Caught 1 (unhealthyConnection 1 3), Sleep 1 1000,
              Unhealthy 2, Caught 2 (unhealthyConnection 2 3), Sleep 2 2000,
              Unhealthy 3, Caught 3 (unhealthyConnection 3 3)]"
  let ?U = "executeWithRetry failingProbes failsTwice None unhealthy0"
  have unhealthy: "\<not> isHealthy unhealthy0"
    "\<forall>d w. \<forall>p\<in>set (fst (failingProbes d w)). \<not> probeHealthy p"
    by (simp_all add: unhealthy0_def failingProbes_def)
  have n: "(3::int) = (case None of None \<Rightarrow> retryAttempts unhealthy0 | Some m \<Rightarrow> m)"
    by (simp add: unhealthy0_def manager0_def ConnectionManager_def initializeConnection_def
          connectOk_def startHealthCheck_def)
  have tr: "trace (snd ?U) = trace unhealthy0 @ ?tr" by code_simp
  have run: "?U = (fst ?U, snd ?U)" by simp
  have u: "Unhealthy 2 \<in> set ?tr" by simp
  have le: "(1::int) \<le> 3" by simp
  note g = executeWithRetry_health_gate [OF n le run tr]
  have s3: "showInt 3 = ''3''" by code_simp
  have "invocations ?tr = []"
    "fst ?U = Inl (SolanaToolkitError
                     (''Operation failed after '' @ showInt 3 @ '' attempts: Connection is unhealthy'')
                     ''OPERATION_FAILED''
                     [(''maxRetries'', CNum 3), (''lastError'', CStr ''Connection is unhealthy'')])"
    "executeWithRetry failingProbes alwaysFails None unhealthy0 = (fst ?U, snd ?U)"
    "2 \<notin> set (invocations ?tr)"
    using g unhealthy u by blast+
  with s3 show ?thesis by (simp add: prod_eq_iff)
qed

end
